theory Spec2Isabelle
  imports Main "HOL-Library.AList"
begin

section \<open>JavaScript values\<close>

text \<open>
  A number is a safe integer: an integer strictly between \<open>-2^53\<close> and \<open>2^53\<close>
  (\<open>Number.isSafeInteger\<close>). These are the numbers that entity ids are, and each of
  them is held exactly and printed digit by digit. Fractions and numbers of larger
  magnitude, which are printed from their floating-point representation, are not values
  of this type.
\<close>

typedef safe_integer = "{i :: int. - (2 ^ 53) < i \<and> i < 2 ^ 53}"
  morphisms int_of_safe safe_of_int
  by (rule exI [of _ 0]) simp

instantiation safe_integer :: equal
begin

definition equal_safe_integer :: "safe_integer \<Rightarrow> safe_integer \<Rightarrow> bool" where
  "equal_safe_integer m n \<longleftrightarrow> int_of_safe m = int_of_safe n"

instance
  by standard (simp add: equal_safe_integer_def int_of_safe_inject)

end

text \<open>
  The values the component handles: API responses parsed from JSON, the entity details
  and the serialized form. An object is its list of properties in insertion order.
\<close>

datatype jsval =
    JUndefined
  | JNull
  | JBool bool
  | JNum safe_integer
  | JStr string
  | JArr "jsval list"
  | JObj "(string \<times> jsval) list"

type_synonym obj = "(string \<times> jsval) list"

datatype exn = TypeError | ReferenceError

text \<open>\<open>o.k\<close> on an object: the value of the property, \<open>undefined\<close> when there is none.\<close>

definition obj_get :: "obj \<Rightarrow> string \<Rightarrow> jsval" where
  "obj_get ob k = (case map_of ob k of None \<Rightarrow> JUndefined | Some v \<Rightarrow> v)"

text \<open>
  \<open>v.k\<close> on any value, for the property names the component reads (\<open>result\<close>,
  \<open>message\<close>, \<open>id\<close>): reading a property of \<open>undefined\<close> or \<open>null\<close> throws a TypeError,
  and no primitive or array has a property of one of these names.
\<close>

fun get_prop :: "jsval \<Rightarrow> string \<Rightarrow> exn + jsval" where
  "get_prop JUndefined k = Inl TypeError"
| "get_prop JNull k = Inl TypeError"
| "get_prop (JObj ob) k = Inr (obj_get ob k)"
| "get_prop v k = Inr JUndefined"

subsection \<open>Conversion to string\<close>

fun string_of_nat :: "nat \<Rightarrow> string" where
  "string_of_nat n =
     (if n < 10 then [char_of (48 + n)]
      else string_of_nat (n div 10) @ [char_of (48 + n mod 10)])"

declare string_of_nat.simps [simp del]

definition number_to_string :: "safe_integer \<Rightarrow> string" where
  "number_to_string n =
     (let i = int_of_safe n
      in if i < 0 then CHR ''-'' # string_of_nat (nat (- i)) else string_of_nat (nat i))"

text \<open>
  What \<open>'' + v\<close> appends for a value \<open>v\<close>: an array joins its elements with commas, where
  \<open>undefined\<close> and \<open>null\<close> elements give the empty string; a plain object gives
  \<open>[object Object]\<close>.
\<close>

fun to_string :: "jsval \<Rightarrow> string"
  and join_elems :: "jsval list \<Rightarrow> string" where
  "to_string JUndefined = ''undefined''"
| "to_string JNull = ''null''"
| "to_string (JBool b) = (if b then ''true'' else ''false'')"
| "to_string (JNum n) = number_to_string n"
| "to_string (JStr s) = s"
| "to_string (JArr vs) = join_elems vs"
| "to_string (JObj ob) = ''[object Object]''"
| "join_elems [] = []"
| "join_elems [v] = (if v = JUndefined \<or> v = JNull then [] else to_string v)"
| "join_elems (v # w # ws) =
     (if v = JUndefined \<or> v = JNull then [] else to_string v) @ '','' @ join_elems (w # ws)"

section \<open>Props, actions and effects\<close>

text \<open>
  \<open>this.props\<close> as the component reads it: \<open>App.formChanged\<close>, \<open>AdGroup.details\<close>,
  \<open>AdGroup.isSaving\<close>, \<open>editMode\<close>, \<open>params.campaignId\<close> and \<open>Campaign.details\<close>.
\<close>

record props =
  App_formChanged :: bool
  AdGroup_details :: obj
  AdGroup_isSaving :: bool
  editMode :: bool
  params_campaignId :: jsval
  Campaign_details :: obj

text \<open>
  The actions the component creates, named as their creators in
  \<open>actions/App/AppActions\<close> and \<open>actions/AdGroups/AdGroupActions\<close>, with their arguments.
\<close>

datatype action =
    displayMessage string jsval
  | shownMessage
  | formChanged
  | formSaved
  | createAdGroup string
  | updateAdGroup jsval string
  | adGroupSetDetailsVar string jsval

text \<open>
  What a handler does to the world, in order: \<open>dispatch(a)\<close>, \<open>window.scrollTo(x, y)\<close>,
  \<open>history.pushState(state, path)\<close>, \<open>e.preventDefault()\<close> and jQuery's
  \<open>$(selector).attr(name, value)\<close>.
\<close>

datatype effect =
    dispatch action
  | scrollTo int int
  | pushState jsval string
  | preventDefault
  | attr string string jsval

text \<open>A handler's run: its effects in order, and the exception that ended it, if any.\<close>

type_synonym run = "effect list \<times> exn option"

section \<open>The response handler\<close>

definition handleResponse :: "props \<Rightarrow> jsval \<Rightarrow> run" where
  "handleResponse p response =
     (case get_prop response ''result'' of
        Inl x \<Rightarrow> ([], Some x)
      | Inr result \<Rightarrow>
          if result = JUndefined then
            (case get_prop response ''message'' of
               Inl x \<Rightarrow> ([], Some x)
             | Inr message \<Rightarrow>
                 ([dispatch (displayMessage ''error'' message),
                   dispatch shownMessage,
                   scrollTo 0 0], None))
          else
            (let shown =
                   [dispatch (displayMessage ''success''
                      (JStr (if editMode p then ''Ad Group Updated Successfully''
                             else ''Ad Group Created Successfully''))),
                    dispatch formSaved]
             in case get_prop result ''id'' of
                  Inl x \<Rightarrow> (shown, Some x)
                | Inr i \<Rightarrow> (shown @ [pushState JNull (''/adgroups/'' @ to_string i)], None)))"

text \<open>The paths a run navigates to, and the actions it dispatches.\<close>

fun navigations :: "effect list \<Rightarrow> string list" where
  "navigations [] = []"
| "navigations (pushState s path # es) = path # navigations es"
| "navigations (e # es) = navigations es"

fun dispatched :: "effect list \<Rightarrow> action list" where
  "dispatched [] = []"
| "dispatched (dispatch a # es) = a # dispatched es"
| "dispatched (e # es) = dispatched es"

section \<open>JSON text\<close>

text \<open>
  \<open>JSON.stringify\<close> on the values above. A string is quoted with the quotation mark, the
  backslash and the control characters escaped; a property whose value is \<open>undefined\<close>
  is left out of an object, and an \<open>undefined\<close> element of an array is written \<open>null\<close>.
  The component only ever passes an object, so the equation for \<open>undefined\<close> is the one
  for array elements.
\<close>

definition hex_digit :: "nat \<Rightarrow> char" where
  "hex_digit n = (if n < 10 then char_of (48 + n) else char_of (87 + n))"

definition json_escape :: "char \<Rightarrow> string" where
  "json_escape c =
     (let n = (of_char c :: nat) in
      if n = 0x22 then [CHR 0x5C, CHR 0x22]
      else if n = 0x5C then [CHR 0x5C, CHR 0x5C]
      else if n = 0x08 then [CHR 0x5C, CHR ''b'']
      else if n = 0x0C then [CHR 0x5C, CHR ''f'']
      else if n = 0x0A then [CHR 0x5C, CHR ''n'']
      else if n = 0x0D then [CHR 0x5C, CHR ''r'']
      else if n = 0x09 then [CHR 0x5C, CHR ''t'']
      else if n < 0x20 then
        [CHR 0x5C, CHR ''u'', CHR ''0'', CHR ''0'', hex_digit (n div 16), hex_digit (n mod 16)]
      else [c])"

definition json_quote :: "string \<Rightarrow> string" where
  "json_quote s = CHR 0x22 # concat (map json_escape s) @ [CHR 0x22]"

fun comma_join :: "string list \<Rightarrow> string" where
  "comma_join [] = []"
| "comma_join [s] = s"
| "comma_join (s # t # ts) = s @ '','' @ comma_join (t # ts)"

fun JSON_stringify :: "jsval \<Rightarrow> string"
  and stringify_elems :: "jsval list \<Rightarrow> string list"
  and stringify_members :: "obj \<Rightarrow> string list" where
  "JSON_stringify JUndefined = ''null''"
| "JSON_stringify JNull = ''null''"
| "JSON_stringify (JBool b) = (if b then ''true'' else ''false'')"
| "JSON_stringify (JNum n) = number_to_string n"
| "JSON_stringify (JStr s) = json_quote s"
| "JSON_stringify (JArr vs) = ''['' @ comma_join (stringify_elems vs) @ '']''"
| "JSON_stringify (JObj ob) = ''{'' @ comma_join (stringify_members ob) @ ''}''"
| "stringify_elems [] = []"
| "stringify_elems (v # vs) = JSON_stringify v # stringify_elems vs"
| "stringify_members [] = []"
| "stringify_members ((k, v) # kvs) =
     (if v = JUndefined then stringify_members kvs
      else (json_quote k @ '':'' @ JSON_stringify v) # stringify_members kvs)"

section \<open>Change tracking and the type toggle\<close>

definition handleChange :: "props \<Rightarrow> effect list" where
  "handleChange p = (if App_formChanged p \<noteq> True then [dispatch formChanged] else [])"

text \<open>
  \<open>handleSwitch(e)\<close>; the argument is what \<open>$('#' + e.target.id).prop('checked')\<close> reads
  from the toggle.
\<close>

definition handleSwitch :: "props \<Rightarrow> jsval \<Rightarrow> effect list" where
  "handleSwitch p checked =
     handleChange p @
     [dispatch (adGroupSetDetailsVar ''type''
        (JStr (if checked = JBool True then ''directory'' else ''suggested'')))]"

definition componentWillMount :: "props \<Rightarrow> effect list" where
  "componentWillMount p =
     (if obj_get (AdGroup_details p) ''type'' = JUndefined
      then [dispatch (adGroupSetDetailsVar ''type'' (JStr ''suggested''))]
      else [])"

section \<open>Submitting\<close>

text \<open>
  What the form libraries return when the Save button is clicked: the verdict of parsley's
  \<open>validate()\<close> on the form and the object \<open>serializeJSON()\<close> builds from its fields.
\<close>

record form =
  validate :: bool
  serializeJSON :: obj

definition handleCreate :: "props \<Rightarrow> string \<Rightarrow> effect list" where
  "handleCreate p data = [dispatch (createAdGroup data)]"

definition handleUpdate :: "props \<Rightarrow> string \<Rightarrow> effect list" where
  "handleUpdate p data =
     [dispatch (updateAdGroup (obj_get (AdGroup_details p) ''id'') data)]"

definition handleFormSubmit :: "props \<Rightarrow> form \<Rightarrow> effect list" where
  "handleFormSubmit p f =
     [preventDefault,
      attr ''input.select2-search__field'' ''data-parsley-excluded'' (JBool True)] @
     (if validate f then
        (let formData = serializeJSON f;
             formData = (if obj_get formData ''type'' = JUndefined
                         then AList.update ''type'' (JStr ''suggested'') formData
                         else AList.update ''type'' (JStr ''directory'') formData);
             data = JSON_stringify (JObj formData)
         in if editMode p then handleUpdate p data else handleCreate p data)
      else
        [dispatch (displayMessage ''error'' (JStr ''Validation Errors'')),
         dispatch shownMessage,
         scrollTo 0 0])"

text \<open>The network operations among the actions of a run.\<close>

fun is_network :: "action \<Rightarrow> bool" where
  "is_network (createAdGroup data) = True"
| "is_network (updateAdGroup i data) = True"
| "is_network a = False"

definition network_ops :: "effect list \<Rightarrow> action list" where
  "network_ops es = filter is_network (dispatched es)"

section \<open>Rendering\<close>

text \<open>
  \<open>render\<close> writes the campaign of the route into the details when they have none, and
  returns the markup. Of the markup, the view keeps the spinner of the Save button, the
  initial state of the type toggle, whether the description is there, the category field
  (the class of its wrapper and whether the select is disabled) and the budget section
  (the class of its wrapper and whether its two inputs are disabled), which is there in
  create mode only.
\<close>

definition render_data :: "props \<Rightarrow> obj" where
  "render_data p =
     (let data = AdGroup_details p
      in if obj_get data ''campaign_id'' = JUndefined
         then AList.update ''campaign_id'' (params_campaignId p) data
         else data)"

record categories_view =
  categories_className :: string
  categories_disabled :: bool

record budget_view =
  budget_className :: string
  frequency_cap_daily_disabled :: bool
  frequency_cap_total_disabled :: bool

record view =
  spinner :: "string option"
  type_defaultChecked :: bool
  explanation :: bool
  categories :: categories_view
  budget :: "budget_view option"

definition render :: "props \<Rightarrow> view" where
  "render p =
     (let data = render_data p;
          directory = (obj_get data ''type'' = JStr ''directory'')
      in \<lparr> spinner = (if AdGroup_isSaving p then Some ''/public/img/ajax-loader-aqua.gif''
                      else None),
           type_defaultChecked =
             (if obj_get data ''type'' = JStr ''suggested'' \<or> obj_get data ''type'' = JUndefined
              then False else True),
           explanation = (obj_get data ''type'' = JStr ''suggested''),
           categories =
             \<lparr> categories_className = (if directory then ''hide'' else []),
               categories_disabled = directory \<rparr>,
           budget =
             (if editMode p = False
              then Some \<lparr> budget_className = (if directory then ''hide'' else []),
                          frequency_cap_daily_disabled = directory,
                          frequency_cap_total_disabled = directory \<rparr>
              else None) \<rparr>)"

section \<open>Binding the multi-select widgets\<close>

text \<open>
  \<open>componentDidMount\<close> and \<open>componentDidUpdate\<close> start select2 on the \<open>.js-select\<close>
  elements (locale and categories) and bind a function to their \<open>change\<close> event; a change
  made through the widget reaches the component through these functions. Both functions
  have the body \<open>context.handleChange()\<close>. \<open>componentDidMount\<close> declares
  \<open>const context = this\<close>. \<open>componentDidUpdate\<close> declares no \<open>context\<close>, and neither does
  the module: there, evaluating the name throws a ReferenceError before \<open>handleChange\<close>
  is reached.
\<close>

datatype callback = didMount_change | didUpdate_change

fun call :: "props \<Rightarrow> callback \<Rightarrow> run" where
  "call p didMount_change = (handleChange p, None)"
| "call p didUpdate_change = ([], Some ReferenceError)"

text \<open>The callbacks each lifecycle method binds.\<close>

definition componentDidMount :: "props \<Rightarrow> callback list" where
  "componentDidMount p = [didMount_change]"

definition componentDidUpdate :: "props \<Rightarrow> props \<Rightarrow> callback list" where
  "componentDidUpdate prevProps p =
     (if obj_get (AdGroup_details prevProps) ''id'' \<noteq> obj_get (AdGroup_details p) ''id'' \<or>
         obj_get (Campaign_details prevProps) ''id'' \<noteq> obj_get (Campaign_details p) ''id''
      then [didUpdate_change] else [])"

text \<open>The \<open>key\<close> that \<open>render\<close> gives the form.\<close>

definition form_key :: "props \<Rightarrow> string" where
  "form_key p =
     (let data = render_data p
      in ''adgroupform-'' @
         (if editMode p then ''edit-'' @ to_string (obj_get data ''id'')
          else ''create-'' @ to_string (obj_get data ''campaign_id'')))"

section \<open>The store and the event loop\<close>

text \<open>
  Modelled from the spec: the reducers of the store (the code behind
  \<open>actions/App/AppActions\<close> and \<open>actions/AdGroups/AdGroupActions\<close>) are not among the
  sources. Following the spec, the dirty flag is set by the changed signal and cleared
  when the form is marked saved, \<open>adGroupSetDetailsVar\<close> sets one field of the entity
  details and leaves the others, and notifications and network operations touch neither
  the dirty flag nor the details.
\<close>

fun reducer :: "props \<Rightarrow> action \<Rightarrow> props" where
  "reducer p formChanged = p\<lparr>App_formChanged := True\<rparr>"
| "reducer p formSaved = p\<lparr>App_formChanged := False\<rparr>"
| "reducer p (adGroupSetDetailsVar k v) =
     p\<lparr>AdGroup_details := AList.update k v (AdGroup_details p)\<rparr>"
| "reducer p a = p"

definition commit :: "props \<Rightarrow> effect list \<Rightarrow> props" where
  "commit p es = foldl reducer p (dispatched es)"

definition rerender :: "props \<Rightarrow> props" where
  "rerender p = p\<lparr>AdGroup_details := render_data p\<rparr>"

text \<open>
  The callbacks on the select elements after an update of the props: when the key of the
  form changes, React replaces the form and its elements, and what was bound on the old
  selects is gone; then \<open>componentDidUpdate\<close> binds.
\<close>

definition rebound :: "props \<Rightarrow> props \<Rightarrow> callback list \<Rightarrow> callback list" where
  "rebound prevProps p cs =
     (if form_key prevProps = form_key p then cs else []) @ componentDidUpdate prevProps p"

text \<open>
  A \<open>change\<close> event of a select runs the callbacks bound on it in the order they were
  bound, each on the props as the one before left them, and stops at the first that
  throws.
\<close>

fun trigger :: "props \<Rightarrow> callback list \<Rightarrow> run" where
  "trigger p [] = ([], None)"
| "trigger p (c # cs) =
     (case call p c of
        (t, Some x) \<Rightarrow> (t, Some x)
      | (t, None) \<Rightarrow>
          (let (t', x) = trigger (rerender (commit p t)) cs in (t @ t', x)))"

text \<open>
  The events of the single-threaded loop: a field changes through React's \<open>onChange\<close>,
  a select changes through its select2 widget (with the callbacks bound on it), the type
  toggle is switched (with the state of the checkbox), the Save button is clicked (with
  the state of the form), and the response to a submission arrives (the continuation
  that \<open>handleCreate\<close> and \<open>handleUpdate\<close> attach to the dispatched operation). A handler
  reads the props as they are when it starts; its actions go through the store
  (\<open>commit\<close>), and the component renders again with the new props (\<open>rerender\<close>), as the
  React and Redux runtime has it. Mounting runs \<open>componentWillMount\<close> and the first
  \<open>render\<close>.
\<close>

datatype event =
    Change
  | Select2Change "callback list"
  | Switch jsval
  | Submit form
  | Response jsval

fun handle :: "props \<Rightarrow> event \<Rightarrow> effect list" where
  "handle p Change = handleChange p"
| "handle p (Select2Change cs) = fst (trigger p cs)"
| "handle p (Switch checked) = handleSwitch p checked"
| "handle p (Submit f) = handleFormSubmit p f"
| "handle p (Response r) = fst (handleResponse p r)"

definition mount :: "props \<Rightarrow> props" where
  "mount p = rerender (commit p (componentWillMount p))"

fun run_events :: "props \<Rightarrow> event list \<Rightarrow> props \<times> effect list" where
  "run_events p [] = (p, [])"
| "run_events p (e # es) =
     (let t = handle p e;
          (p', t') = run_events (rerender (commit p t)) es
      in (p', t @ t'))"

text \<open>
  The field-change events: a change of an input, of a select and of the type toggle.
  Among them, the ones that call \<open>handleChange\<close>: for a select, the ones whose first
  callback is the one \<open>componentDidMount\<close> binds.
\<close>

fun field_change :: "event \<Rightarrow> bool" where
  "field_change Change = True"
| "field_change (Select2Change cs) = True"
| "field_change (Switch checked) = True"
| "field_change e = False"

fun calls_handleChange :: "event \<Rightarrow> bool" where
  "calls_handleChange Change = True"
| "calls_handleChange (Select2Change (didMount_change # cs)) = True"
| "calls_handleChange (Switch checked) = True"
| "calls_handleChange e = False"

text \<open>A response takes the success branch of \<open>handleResponse\<close> when its \<open>result\<close> is defined.\<close>

fun succeeded :: "event \<Rightarrow> bool" where
  "succeeded (Response r) =
     (case get_prop r ''result'' of Inl x \<Rightarrow> False | Inr v \<Rightarrow> v \<noteq> JUndefined)"
| "succeeded e = False"

text \<open>The payloads a run sends over the network.\<close>

fun sent_data :: "action list \<Rightarrow> string list" where
  "sent_data [] = []"
| "sent_data (createAdGroup data # as) = data # sent_data as"
| "sent_data (updateAdGroup i data # as) = data # sent_data as"
| "sent_data (a # as) = sent_data as"

section \<open>Reading and writing properties\<close>

lemma obj_get_update:
  "obj_get (AList.update k v ob) k' = (if k' = k then v else obj_get ob k')"
  by (simp add: obj_get_def update_conv')

lemma obj_get_absent: "k \<notin> fst ` set ob \<Longrightarrow> obj_get ob k = JUndefined"
  by (simp add: obj_get_def map_of_eq_None_iff [THEN iffD2])

lemma obj_get_present:
  assumes "k \<in> fst ` set ob" and "JUndefined \<notin> snd ` set ob"
  shows "obj_get ob k \<noteq> JUndefined"
proof -
  from assms(1) have "map_of ob k \<noteq> None"
    by (simp add: map_of_eq_None_iff)
  then obtain v where v: "map_of ob k = Some v" by blast
  then have "(k, v) \<in> set ob" by (rule map_of_SomeD)
  with assms(2) have "v \<noteq> JUndefined" by force
  with v show ?thesis by (simp add: obj_get_def)
qed

text \<open>Printing the ids of the examples.\<close>

lemma int_of_safe_of_int:
  "- (2 ^ 53) < i \<Longrightarrow> i < 2 ^ 53 \<Longrightarrow> int_of_safe (safe_of_int i) = i"
  by (simp add: safe_of_int_inverse)

lemma number_to_string_examples:
  "number_to_string (safe_of_int 5) = ''5''"
  "number_to_string (safe_of_int 7) = ''7''"
  "number_to_string (safe_of_int 42) = ''42''"
proof -
  have "string_of_nat 5 = ''5''" and "string_of_nat 7 = ''7''" and "string_of_nat 42 = ''42''"
    by code_simp+
  then show "number_to_string (safe_of_int 5) = ''5''"
    and "number_to_string (safe_of_int 7) = ''7''"
    and "number_to_string (safe_of_int 42) = ''42''"
    by (simp_all add: number_to_string_def int_of_safe_of_int)
qed

text \<open>In the store, \<open>formSaved\<close> clears the dirty flag and \<open>formChanged\<close> sets it.\<close>

lemma reducer_dirty_flag:
  "App_formChanged (reducer p formSaved) = False"
  "App_formChanged (reducer p formChanged) = True"
  by simp_all

section \<open>The response handler: success and failure\<close>

text \<open>
  C1. A response with a result object raises the success notification, whose text is
  ``Ad Group Updated Successfully'' in edit mode and ``Ad Group Created Successfully''
  in create mode, then dispatches \<open>formSaved\<close>, then navigates to \<open>/adgroups/\<close> followed
  by the id of the result, and nowhere else. The id is appended as string concatenation
  converts it: a number, which is a safe integer here, by its decimal digits.
\<close>

theorem handleResponse_success:
  assumes "get_prop response ''result'' = Inr (JObj result)"
  shows "handleResponse p response =
           ([dispatch (displayMessage ''success''
               (JStr (if editMode p then ''Ad Group Updated Successfully''
                      else ''Ad Group Created Successfully''))),
             dispatch formSaved,
             pushState JNull (''/adgroups/'' @ to_string (obj_get result ''id''))], None)
         \<and> navigations (fst (handleResponse p response)) =
             [''/adgroups/'' @ to_string (obj_get result ''id'')]"
  using assms by (simp add: handleResponse_def)

theorem handleResponse_success_witness:
  "handleResponse \<lparr>App_formChanged = True, AdGroup_details = [(''id'', JNum (safe_of_int 42))],
       AdGroup_isSaving = False, editMode = True, params_campaignId = JStr ''3'', Campaign_details = []\<rparr>
     (JObj [(''result'', JObj [(''id'', JNum (safe_of_int 42))])]) =
     ([dispatch (displayMessage ''success'' (JStr ''Ad Group Updated Successfully'')),
       dispatch formSaved, pushState JNull ''/adgroups/42''], None)
   \<and> handleResponse \<lparr>App_formChanged = True, AdGroup_details = [],
       AdGroup_isSaving = False, editMode = False, params_campaignId = JStr ''3'', Campaign_details = []\<rparr>
     (JObj [(''result'', JObj [(''id'', JNum (safe_of_int 7))])]) =
     ([dispatch (displayMessage ''success'' (JStr ''Ad Group Created Successfully'')),
       dispatch formSaved, pushState JNull ''/adgroups/7''], None)"
proof -
  have r: "get_prop (JObj [(''result'', JObj [(''id'', JNum n)])]) ''result'' =
             Inr (JObj [(''id'', JNum n)])" for n
    by (simp add: obj_get_def)
  show ?thesis
    using handleResponse_success [OF r [of "safe_of_int 42"],
        of "\<lparr>App_formChanged = True, AdGroup_details = [(''id'', JNum (safe_of_int 42))],
             AdGroup_isSaving = False, editMode = True, params_campaignId = JStr ''3'',
             Campaign_details = []\<rparr>"]
      handleResponse_success [OF r [of "safe_of_int 7"],
        of "\<lparr>App_formChanged = True, AdGroup_details = [],
             AdGroup_isSaving = False, editMode = False, params_campaignId = JStr ''3'',
             Campaign_details = []\<rparr>"]
    by (simp add: obj_get_def number_to_string_examples)
qed

text \<open>
  C2. A response whose \<open>result\<close> is undefined raises an error notification with the
  \<open>message\<close> of the response as its text, marks it shown, scrolls to the top, and does
  not navigate.
\<close>

theorem handleResponse_failure:
  assumes "get_prop response ''result'' = Inr JUndefined"
  shows "\<exists>message. get_prop response ''message'' = Inr message
           \<and> handleResponse p response =
               ([dispatch (displayMessage ''error'' message),
                 dispatch shownMessage,
                 scrollTo 0 0], None)
           \<and> navigations (fst (handleResponse p response)) = []"
  using assms by (cases response) (simp_all add: handleResponse_def)

theorem handleResponse_failure_witness:
  "get_prop (JObj [(''message'', JStr ''bad locale'')]) ''result'' = Inr JUndefined
   \<and> handleResponse \<lparr>App_formChanged = True, AdGroup_details = [],
       AdGroup_isSaving = False, editMode = False, params_campaignId = JStr ''3'', Campaign_details = []\<rparr>
     (JObj [(''message'', JStr ''bad locale'')]) =
     ([dispatch (displayMessage ''error'' (JStr ''bad locale'')),
       dispatch shownMessage, scrollTo 0 0], None)"
  using handleResponse_failure [of "JObj [(''message'', JStr ''bad locale'')]"
     "\<lparr>App_formChanged = True, AdGroup_details = [],
       AdGroup_isSaving = False, editMode = False, params_campaignId = JStr ''3'', Campaign_details = []\<rparr>"]
  by (simp add: obj_get_def)

section \<open>Submitting: validation, payload and network operation\<close>

text \<open>
  C3. When validation fails, \<open>handleFormSubmit\<close> dispatches neither \<open>createAdGroup\<close> nor
  \<open>updateAdGroup\<close>: it raises the error notification ``Validation Errors'', marks it
  shown and scrolls to the top.
\<close>

theorem handleFormSubmit_invalid:
  assumes "\<not> validate f"
  shows "handleFormSubmit p f =
           [preventDefault,
            attr ''input.select2-search__field'' ''data-parsley-excluded'' (JBool True),
            dispatch (displayMessage ''error'' (JStr ''Validation Errors'')),
            dispatch shownMessage,
            scrollTo 0 0]
         \<and> network_ops (handleFormSubmit p f) = []"
  using assms by (simp add: handleFormSubmit_def network_ops_def)

theorem handleFormSubmit_invalid_witness:
  "\<not> validate \<lparr>validate = False, serializeJSON = [(''name'', JStr [])]\<rparr>
   \<and> network_ops (handleFormSubmit
      \<lparr>App_formChanged = True, AdGroup_details = [], AdGroup_isSaving = False,
        editMode = False, params_campaignId = JStr ''3'', Campaign_details = []\<rparr>
      \<lparr>validate = False, serializeJSON = [(''name'', JStr [])]\<rparr>) = []"
  using handleFormSubmit_invalid [of "\<lparr>validate = False, serializeJSON = [(''name'', JStr [])]\<rparr>"
      "\<lparr>App_formChanged = True, AdGroup_details = [], AdGroup_isSaving = False,
        editMode = False, params_campaignId = JStr ''3'', Campaign_details = []\<rparr>"]
  by (simp add: network_ops_def)

text \<open>What a validated submit does, and where the type of the payload ends up.\<close>

lemma update_mem: "(k, v) \<in> set (AList.update k v ob)"
  by (induction ob) auto

lemma update_only:
  assumes "distinct (map fst ob)" and "(k, w) \<in> set (AList.update k v ob)"
  shows "w = v"
proof -
  have "distinct (map fst (AList.update k v ob))"
    using assms(1) by (simp add: distinct_update)
  with assms(2) have "map_of (AList.update k v ob) k = Some w" by simp
  then show ?thesis by (simp add: update_conv')
qed

lemma stringify_members_mem:
  "(k, v) \<in> set ob \<Longrightarrow> v \<noteq> JUndefined \<Longrightarrow>
   json_quote k @ '':'' @ JSON_stringify v \<in> set (stringify_members ob)"
  by (induction ob) auto

lemma handleFormSubmit_valid:
  assumes "validate f"
  shows "handleFormSubmit p f =
           [preventDefault,
            attr ''input.select2-search__field'' ''data-parsley-excluded'' (JBool True),
            dispatch
              (let data = JSON_stringify (JObj (AList.update ''type''
                            (JStr (if obj_get (serializeJSON f) ''type'' = JUndefined
                                   then ''suggested'' else ''directory''))
                            (serializeJSON f)))
               in if editMode p then updateAdGroup (obj_get (AdGroup_details p) ''id'') data
                  else createAdGroup data)]"
  using assms by (simp add: handleFormSubmit_def handleUpdate_def handleCreate_def Let_def)

text \<open>
  C4. On a validated submit the payload sent is the JSON text of the serialized form with
  its \<open>type\<close> set: to ``suggested'' exactly when the serialized form has no \<open>type\<close> key,
  to ``directory'' exactly when it has one. No other value of \<open>type\<close> is in the payload,
  and the member \<open>"type":"suggested"\<close> or \<open>"type":"directory"\<close> is in its text. The
  serialized form is an object (its keys are distinct) and \<open>serializeJSON\<close> gives no key
  the value \<open>undefined\<close>.
\<close>

theorem handleFormSubmit_payload_type:
  assumes "validate f"
    and "distinct (map fst (serializeJSON f))"
    and "JUndefined \<notin> snd ` set (serializeJSON f)"
  shows "\<exists>t payload.
           payload = AList.update ''type'' (JStr t) (serializeJSON f)
         \<and> sent_data (network_ops (handleFormSubmit p f)) = [JSON_stringify (JObj payload)]
         \<and> (t = ''suggested'' \<longleftrightarrow> ''type'' \<notin> fst ` set (serializeJSON f))
         \<and> (t = ''directory'' \<longleftrightarrow> ''type'' \<in> fst ` set (serializeJSON f))
         \<and> obj_get payload ''type'' = JStr t
         \<and> (\<forall>v. (''type'', v) \<in> set payload \<longrightarrow> v = JStr t)
         \<and> json_quote ''type'' @ '':'' @ json_quote t \<in> set (stringify_members payload)"
proof (cases "''type'' \<in> fst ` set (serializeJSON f)")
  case True
  then have "obj_get (serializeJSON f) ''type'' \<noteq> JUndefined"
    using assms(3) by (rule obj_get_present)
  then have sent: "sent_data (network_ops (handleFormSubmit p f)) =
      [JSON_stringify (JObj (AList.update ''type'' (JStr ''directory'') (serializeJSON f)))]"
    using assms(1) by (simp add: handleFormSubmit_valid network_ops_def Let_def)
  have only: "\<forall>v. (''type'', v) \<in> set (AList.update ''type'' (JStr ''directory'') (serializeJSON f))
      \<longrightarrow> v = JStr ''directory''"
    using update_only [OF assms(2)] by blast
  have "json_quote ''type'' @ '':'' @ JSON_stringify (JStr ''directory'')
      \<in> set (stringify_members (AList.update ''type'' (JStr ''directory'') (serializeJSON f)))"
    by (rule stringify_members_mem [OF update_mem]) simp
  with sent only True show ?thesis
    by (intro exI [of _ "''directory''"] exI [of _ "AList.update ''type'' (JStr ''directory'') (serializeJSON f)"])
       (simp add: obj_get_update)
next
  case False
  then have "obj_get (serializeJSON f) ''type'' = JUndefined"
    by (rule obj_get_absent)
  then have sent: "sent_data (network_ops (handleFormSubmit p f)) =
      [JSON_stringify (JObj (AList.update ''type'' (JStr ''suggested'') (serializeJSON f)))]"
    using assms(1) by (simp add: handleFormSubmit_valid network_ops_def Let_def)
  have only: "\<forall>v. (''type'', v) \<in> set (AList.update ''type'' (JStr ''suggested'') (serializeJSON f))
      \<longrightarrow> v = JStr ''suggested''"
    using update_only [OF assms(2)] by blast
  have "json_quote ''type'' @ '':'' @ JSON_stringify (JStr ''suggested'')
      \<in> set (stringify_members (AList.update ''type'' (JStr ''suggested'') (serializeJSON f)))"
    by (rule stringify_members_mem [OF update_mem]) simp
  with sent only False show ?thesis
    by (intro exI [of _ "''suggested''"] exI [of _ "AList.update ''type'' (JStr ''suggested'') (serializeJSON f)"])
       (simp add: obj_get_update)
qed

theorem handleFormSubmit_payload_type_witness:
  \<open>sent_data (network_ops (handleFormSubmit
      \<lparr>App_formChanged = True, AdGroup_details = [], AdGroup_isSaving = False,
        editMode = False, params_campaignId = JStr ''3'', Campaign_details = []\<rparr>
      \<lparr>validate = True, serializeJSON = [(''name'', JStr ''ab'')]\<rparr>)) =
     [''{"name":"ab","type":"suggested"}'']
   \<and> sent_data (network_ops (handleFormSubmit
      \<lparr>App_formChanged = True, AdGroup_details = [], AdGroup_isSaving = False,
        editMode = False, params_campaignId = JStr ''3'', Campaign_details = []\<rparr>
      \<lparr>validate = True, serializeJSON = [(''name'', JStr ''ab''), (''type'', JStr ''true'')]\<rparr>)) =
     [''{"name":"ab","type":"directory"}'']\<close>
proof -
  let ?p = "\<lparr>App_formChanged = True, AdGroup_details = [], AdGroup_isSaving = False,
        editMode = False, params_campaignId = JStr ''3'', Campaign_details = []\<rparr>"
  let ?f = "\<lparr>validate = True, serializeJSON = [(''name'', JStr ''ab'')]\<rparr>"
  let ?g = "\<lparr>validate = True, serializeJSON = [(''name'', JStr ''ab''), (''type'', JStr ''true'')]\<rparr>"
  have s: \<open>JSON_stringify (JObj [(''name'', JStr ''ab''), (''type'', JStr ''suggested'')]) =
      ''{"name":"ab","type":"suggested"}''\<close> by code_simp
  have d: \<open>JSON_stringify (JObj [(''name'', JStr ''ab''), (''type'', JStr ''directory'')]) =
      ''{"name":"ab","type":"directory"}''\<close> by code_simp
  have "\<exists>t payload. payload = AList.update ''type'' (JStr t) (serializeJSON ?f)
      \<and> sent_data (network_ops (handleFormSubmit ?p ?f)) = [JSON_stringify (JObj payload)]
      \<and> (t = ''suggested'' \<longleftrightarrow> ''type'' \<notin> fst ` set (serializeJSON ?f))"
    using handleFormSubmit_payload_type [of ?f ?p] by simp
  then have 1: "sent_data (network_ops (handleFormSubmit ?p ?f)) =
      [JSON_stringify (JObj [(''name'', JStr ''ab''), (''type'', JStr ''suggested'')])]"
    by auto
  have "\<exists>t payload. payload = AList.update ''type'' (JStr t) (serializeJSON ?g)
      \<and> sent_data (network_ops (handleFormSubmit ?p ?g)) = [JSON_stringify (JObj payload)]
      \<and> (t = ''directory'' \<longleftrightarrow> ''type'' \<in> fst ` set (serializeJSON ?g))"
    using handleFormSubmit_payload_type [of ?g ?p] by simp
  then have 2: "sent_data (network_ops (handleFormSubmit ?p ?g)) =
      [JSON_stringify (JObj [(''name'', JStr ''ab''), (''type'', JStr ''directory'')])]"
    by auto
  from 1 2 show ?thesis by (simp only: s d)
qed

text \<open>
  C5. A validated submit dispatches one network operation and nothing else:
  \<open>updateAdGroup\<close> with the id of the current details and the payload in edit mode,
  \<open>createAdGroup\<close> with the payload otherwise.
\<close>

theorem handleFormSubmit_one_operation:
  assumes "validate f"
  shows "\<exists>data.
           data = JSON_stringify (JObj (AList.update ''type''
                    (JStr (if obj_get (serializeJSON f) ''type'' = JUndefined
                           then ''suggested'' else ''directory''))
                    (serializeJSON f)))
         \<and> handleFormSubmit p f =
             [preventDefault,
              attr ''input.select2-search__field'' ''data-parsley-excluded'' (JBool True),
              dispatch (if editMode p
                        then updateAdGroup (obj_get (AdGroup_details p) ''id'') data
                        else createAdGroup data)]
         \<and> network_ops (handleFormSubmit p f) =
             [if editMode p then updateAdGroup (obj_get (AdGroup_details p) ''id'') data
              else createAdGroup data]"
  using assms by (simp add: handleFormSubmit_valid network_ops_def Let_def)

theorem handleFormSubmit_one_operation_witness:
  \<open>network_ops (handleFormSubmit
      \<lparr>App_formChanged = True, AdGroup_details = [(''id'', JNum (safe_of_int 5)), (''type'', JStr ''suggested'')],
        AdGroup_isSaving = False, editMode = True, params_campaignId = JStr ''3'', Campaign_details = []\<rparr>
      \<lparr>validate = True, serializeJSON = [(''id'', JStr ''5''), (''name'', JStr ''ab'')]\<rparr>) =
     [updateAdGroup (JNum (safe_of_int 5)) ''{"id":"5","name":"ab","type":"suggested"}'']
   \<and> network_ops (handleFormSubmit
      \<lparr>App_formChanged = True, AdGroup_details = [], AdGroup_isSaving = False,
        editMode = False, params_campaignId = JStr ''3'', Campaign_details = []\<rparr>
      \<lparr>validate = True, serializeJSON = [(''name'', JStr ''ab'')]\<rparr>) =
     [createAdGroup ''{"name":"ab","type":"suggested"}'']\<close>
proof -
  have s: \<open>JSON_stringify (JObj [(''name'', JStr ''ab''), (''type'', JStr ''suggested'')]) =
      ''{"name":"ab","type":"suggested"}''\<close> by code_simp
  have u: \<open>JSON_stringify (JObj [(''id'', JStr ''5''), (''name'', JStr ''ab''), (''type'', JStr ''suggested'')]) =
      ''{"id":"5","name":"ab","type":"suggested"}''\<close> by code_simp
  show ?thesis
    using handleFormSubmit_one_operation
        [of "\<lparr>validate = True, serializeJSON = [(''id'', JStr ''5''), (''name'', JStr ''ab'')]\<rparr>"
            "\<lparr>App_formChanged = True, AdGroup_details = [(''id'', JNum (safe_of_int 5)), (''type'', JStr ''suggested'')],
              AdGroup_isSaving = False, editMode = True, params_campaignId = JStr ''3'', Campaign_details = []\<rparr>"]
      handleFormSubmit_one_operation
        [of "\<lparr>validate = True, serializeJSON = [(''name'', JStr ''ab'')]\<rparr>"
            "\<lparr>App_formChanged = True, AdGroup_details = [], AdGroup_isSaving = False,
              editMode = False, params_campaignId = JStr ''3'', Campaign_details = []\<rparr>"]
    by (simp add: obj_get_def network_ops_def s u del: JSON_stringify.simps)
qed

section \<open>Submitting while a submission is in flight\<close>

text \<open>
  C7 as stated fails: with \<open>AdGroup.isSaving\<close> true, a validated submit dispatches a
  create.
\<close>

theorem submit_while_saving_counterexample:
  \<open>AdGroup_isSaving \<lparr>App_formChanged = True, AdGroup_details = [], AdGroup_isSaving = True,
        editMode = False, params_campaignId = JStr ''3'', Campaign_details = []\<rparr>
   \<and> network_ops (handleFormSubmit
      \<lparr>App_formChanged = True, AdGroup_details = [], AdGroup_isSaving = True,
        editMode = False, params_campaignId = JStr ''3'', Campaign_details = []\<rparr>
      \<lparr>validate = True, serializeJSON = [(''name'', JStr ''ab'')]\<rparr>) =
     [createAdGroup ''{"name":"ab","type":"suggested"}'']\<close>
proof -
  have s: \<open>JSON_stringify (JObj [(''name'', JStr ''ab''), (''type'', JStr ''suggested'')]) =
      ''{"name":"ab","type":"suggested"}''\<close> by code_simp
  show ?thesis
    by (simp add: handleFormSubmit_valid network_ops_def obj_get_def s
        del: JSON_stringify.simps)
qed

text \<open>
  C7, amended. \<open>handleFormSubmit\<close> does not read \<open>AdGroup.isSaving\<close>: it runs the same
  whatever the flag is, so a validated submit dispatches exactly one network operation
  also while the flag is true. The flag only decides whether \<open>render\<close> shows the spinner
  in the Save button.
\<close>

theorem handleFormSubmit_ignores_isSaving:
  "handleFormSubmit (p\<lparr>AdGroup_isSaving := b\<rparr>) f = handleFormSubmit p f
   \<and> (validate f \<longrightarrow> length (network_ops (handleFormSubmit (p\<lparr>AdGroup_isSaving := True\<rparr>) f)) = 1)
   \<and> spinner (render p) =
       (if AdGroup_isSaving p then Some ''/public/img/ajax-loader-aqua.gif'' else None)"
  by (simp add: handleFormSubmit_def handleUpdate_def handleCreate_def network_ops_def
      render_def Let_def)

theorem handleFormSubmit_ignores_isSaving_witness:
  "length (network_ops (handleFormSubmit
      \<lparr>App_formChanged = True, AdGroup_details = [], AdGroup_isSaving = True,
        editMode = False, params_campaignId = JStr ''3'', Campaign_details = []\<rparr>
      \<lparr>validate = True, serializeJSON = [(''name'', JStr ''ab'')]\<rparr>)) = 1
   \<and> spinner (render \<lparr>App_formChanged = True, AdGroup_details = [], AdGroup_isSaving = True,
        editMode = False, params_campaignId = JStr ''3'', Campaign_details = []\<rparr>) = Some ''/public/img/ajax-loader-aqua.gif''"
  using handleFormSubmit_ignores_isSaving
    [where p = "\<lparr>App_formChanged = True, AdGroup_details = [], AdGroup_isSaving = True,
        editMode = False, params_campaignId = JStr ''3'', Campaign_details = []\<rparr>" and b = True
        and f = "\<lparr>validate = True, serializeJSON = [(''name'', JStr ''ab'')]\<rparr>"]
  by simp

section \<open>The dirty flag and the type of the details through the event loop\<close>

lemma obj_get_render_data:
  "k \<noteq> ''campaign_id'' \<Longrightarrow> obj_get (render_data p) k = obj_get (AdGroup_details p) k"
  by (simp add: render_data_def Let_def obj_get_update)

lemma rerender_simps [simp]:
  "App_formChanged (rerender p) = App_formChanged p"
  "AdGroup_isSaving (rerender p) = AdGroup_isSaving p"
  "editMode (rerender p) = editMode p"
  "params_campaignId (rerender p) = params_campaignId p"
  "obj_get (AdGroup_details (rerender p)) ''type'' = obj_get (AdGroup_details p) ''type''"
  by (simp_all add: rerender_def obj_get_render_data)

lemma handleResponse_cases:
  "fst (handleResponse p r) = [] \<and> \<not> succeeded (Response r)
   \<or> (\<exists>m. fst (handleResponse p r) =
          [dispatch (displayMessage ''error'' m), dispatch shownMessage, scrollTo 0 0])
      \<and> \<not> succeeded (Response r)
   \<or> (\<exists>m t. fst (handleResponse p r) =
          dispatch (displayMessage ''success'' m) # dispatch formSaved # t
          \<and> dispatched t = [])
      \<and> succeeded (Response r)"
  by (cases r) (auto simp: handleResponse_def Let_def split: sum.splits)

lemma handleFormSubmit_cases:
  "dispatched (handleFormSubmit p f) =
     [displayMessage ''error'' (JStr ''Validation Errors''), shownMessage]
   \<or> (\<exists>d. dispatched (handleFormSubmit p f) = [createAdGroup d])
   \<or> (\<exists>i d. dispatched (handleFormSubmit p f) = [updateAdGroup i d])"
  by (simp add: handleFormSubmit_def handleUpdate_def handleCreate_def Let_def)

lemma dispatched_handleSwitch:
  "dispatched (handleSwitch p checked) =
     (if App_formChanged p then [] else [formChanged]) @
     [adGroupSetDetailsVar ''type''
        (JStr (if checked = JBool True then ''directory'' else ''suggested''))]"
  by (simp add: handleSwitch_def handleChange_def)

text \<open>What a change of a select dispatches.\<close>

lemma trigger_dirty: "App_formChanged p \<Longrightarrow> fst (trigger p cs) = []"
proof (induction cs arbitrary: p)
  case Nil
  then show ?case by simp
next
  case (Cons c cs)
  show ?case
  proof (cases c)
    case didMount_change
    have "App_formChanged (rerender (commit p []))"
      using Cons.prems by (simp add: commit_def)
    then have "fst (trigger (rerender (commit p [])) cs) = []" by (rule Cons.IH)
    with Cons.prems didMount_change show ?thesis
      by (simp add: handleChange_def case_prod_beta)
  next
    case didUpdate_change
    then show ?thesis by simp
  qed
qed

lemma trigger_effects:
  "fst (trigger p cs) =
     (if calls_handleChange (Select2Change cs) \<and> \<not> App_formChanged p
      then [dispatch formChanged] else [])"
proof (cases cs)
  case Nil
  then show ?thesis by simp
next
  case (Cons c cs')
  show ?thesis
  proof (cases c)
    case didMount_change
    show ?thesis
    proof (cases "App_formChanged p")
      case True
      then show ?thesis by (simp add: trigger_dirty)
    next
      case False
      have "App_formChanged (rerender (commit p [dispatch formChanged]))"
        by (simp add: commit_def)
      then have "fst (trigger (rerender (commit p [dispatch formChanged])) cs') = []"
        by (rule trigger_dirty)
      with False Cons didMount_change show ?thesis
        by (simp add: handleChange_def case_prod_beta)
    qed
  next
    case didUpdate_change
    with Cons show ?thesis by simp
  qed
qed

lemma commit_handle_flag:
  "App_formChanged (commit p (handle p e)) =
     (if succeeded e then False
      else if calls_handleChange e then True
      else App_formChanged p)"
proof (cases e)
  case Change
  then show ?thesis by (simp add: commit_def handleChange_def)
next
  case (Select2Change cs)
  then show ?thesis by (simp add: commit_def trigger_effects)
next
  case (Switch c)
  then show ?thesis by (simp add: commit_def dispatched_handleSwitch)
next
  case (Submit f)
  with handleFormSubmit_cases [of p f] show ?thesis
    by (auto simp: commit_def)
next
  case (Response r)
  with handleResponse_cases [of p r] show ?thesis
    by (auto simp: commit_def simp del: succeeded.simps)
qed

lemma commit_handle_type:
  "obj_get (AdGroup_details (commit p (handle p e))) ''type'' =
     (case e of
        Switch checked \<Rightarrow> JStr (if checked = JBool True then ''directory'' else ''suggested'')
      | _ \<Rightarrow> obj_get (AdGroup_details p) ''type'')"
proof (cases e)
  case Change
  then show ?thesis by (simp add: commit_def handleChange_def)
next
  case (Select2Change cs)
  then show ?thesis by (simp add: commit_def trigger_effects)
next
  case (Switch c)
  then show ?thesis by (simp add: commit_def dispatched_handleSwitch obj_get_update)
next
  case (Submit f)
  with handleFormSubmit_cases [of p f] show ?thesis
    by (auto simp: commit_def)
next
  case (Response r)
  with handleResponse_cases [of p r] show ?thesis
    by (auto simp: commit_def simp del: succeeded.simps)
qed

lemma run_events_Cons:
  "snd (run_events p (e # es)) =
     handle p e @ snd (run_events (rerender (commit p (handle p e))) es)"
  "fst (run_events p (e # es)) = fst (run_events (rerender (commit p (handle p e))) es)"
  by (simp_all add: Let_def case_prod_beta)

text \<open>
  Which events dispatch \<open>formSaved\<close> and which dispatch \<open>formChanged\<close>: the first is
  dispatched by the success branch of \<open>handleResponse\<close> and by nothing else, the second
  by a field change that calls \<open>handleChange\<close> and finds the flag clear, and by nothing
  else.
\<close>

lemma formSaved_dispatched:
  "formSaved \<in> set (dispatched (handle p e)) \<longleftrightarrow> succeeded e"
proof (cases e)
  case Change
  then show ?thesis by (simp add: handleChange_def)
next
  case (Select2Change cs)
  then show ?thesis by (simp add: trigger_effects)
next
  case (Switch c)
  then show ?thesis by (simp add: dispatched_handleSwitch)
next
  case (Submit f)
  with handleFormSubmit_cases [of p f] show ?thesis by auto
next
  case (Response r)
  with handleResponse_cases [of p r] show ?thesis
    by (auto simp del: succeeded.simps)
qed

lemma formChanged_dispatched:
  "formChanged \<in> set (dispatched (handle p e)) \<longleftrightarrow>
     calls_handleChange e \<and> \<not> App_formChanged p"
proof (cases e)
  case Change
  then show ?thesis by (simp add: handleChange_def)
next
  case (Select2Change cs)
  then show ?thesis by (simp add: trigger_effects)
next
  case (Switch c)
  then show ?thesis by (simp add: dispatched_handleSwitch)
next
  case (Submit f)
  with handleFormSubmit_cases [of p f] show ?thesis by auto
next
  case (Response r)
  with handleResponse_cases [of p r] show ?thesis
    by (auto simp del: succeeded.simps)
qed

text \<open>
  While the dirty flag is set, no field change dispatches \<open>formChanged\<close>. Starting with
  the flag clear, a first field change that calls \<open>handleChange\<close> dispatches it as its
  first action, and the field changes after it do not dispatch it again.
\<close>

lemma handleChange_guard:
  "handleChange p = (if App_formChanged p then [] else [dispatch formChanged])"
  by (simp add: handleChange_def)

lemma dirty_stays:
  "App_formChanged p \<Longrightarrow> list_all field_change es \<Longrightarrow>
   dispatch formChanged \<notin> set (snd (run_events p es))"
proof (induction es arbitrary: p)
  case Nil
  then show ?case by simp
next
  case (Cons e es)
  from Cons.prems have fc: "field_change e" and rest: "list_all field_change es" by simp_all
  from fc have ns: "\<not> succeeded e" by (cases e) simp_all
  have quiet: "dispatch formChanged \<notin> set (handle p e)"
    using Cons.prems(1) fc
    by (cases e) (simp_all add: handleChange_def handleSwitch_def trigger_dirty)
  have "App_formChanged (rerender (commit p (handle p e)))"
    using Cons.prems(1) ns by (simp add: commit_handle_flag)
  then have "dispatch formChanged \<notin> set (snd (run_events (rerender (commit p (handle p e))) es))"
    using rest by (rule Cons.IH)
  with quiet show ?case by (simp add: run_events_Cons del: run_events.simps)
qed

lemma formChanged_once_when_called:
  assumes "\<not> App_formChanged p" and "calls_handleChange e" and "list_all field_change es"
  shows "\<exists>t. handle p e = dispatch formChanged # t \<and> dispatch formChanged \<notin> set t"
    and "dispatch formChanged \<notin> set (snd (run_events (rerender (commit p (handle p e))) es))"
    and "count_list (snd (run_events p (e # es))) (dispatch formChanged) = 1"
proof -
  show first: "\<exists>t. handle p e = dispatch formChanged # t \<and> dispatch formChanged \<notin> set t"
  proof (cases e)
    case (Select2Change cs)
    with assms(1,2) show ?thesis by (simp add: trigger_effects del: calls_handleChange.simps)
  qed (use assms(1,2) in \<open>simp_all add: handleChange_def handleSwitch_def\<close>)
  from assms(2) have "\<not> succeeded e" by (cases e) simp_all
  with assms(2) have "App_formChanged (rerender (commit p (handle p e)))"
    by (simp add: commit_handle_flag)
  with assms(3) show later:
    "dispatch formChanged \<notin> set (snd (run_events (rerender (commit p (handle p e))) es))"
    by (simp add: dirty_stays)
  from first obtain t where t: "handle p e = dispatch formChanged # t"
    "dispatch formChanged \<notin> set t" by blast
  have "snd (run_events p (e # es)) =
      handle p e @ snd (run_events (rerender (commit p (handle p e))) es)"
    by (rule run_events_Cons)
  with t later show "count_list (snd (run_events p (e # es))) (dispatch formChanged) = 1"
    by (simp add: count_list_0_iff [THEN iffD2])
qed

text \<open>
  C6. The claim fails where the details of the ad group arrive after the form has
  mounted in edit mode: the id changes, so the key of the form changes and
  \<open>componentDidUpdate\<close> binds its callback on the new selects, the only one there. With
  the dirty flag clear, a first change of the categories then dispatches nothing, and
  \<open>formChanged\<close> is only dispatched by the change after it. The callback that
  \<open>componentDidMount\<close> binds dispatches \<open>formChanged\<close> on the same props.
\<close>

theorem select2_change_after_update_misses_formChanged:
  "rebound
     \<lparr>App_formChanged = False, AdGroup_details = [(''type'', JStr ''suggested'')],
       AdGroup_isSaving = False, editMode = True, params_campaignId = JStr ''3'',
       Campaign_details = []\<rparr>
     \<lparr>App_formChanged = False,
       AdGroup_details = [(''type'', JStr ''suggested''), (''id'', JNum (safe_of_int 5))],
       AdGroup_isSaving = False, editMode = True, params_campaignId = JStr ''3'',
       Campaign_details = []\<rparr>
     (componentDidMount
       \<lparr>App_formChanged = False, AdGroup_details = [(''type'', JStr ''suggested'')],
         AdGroup_isSaving = False, editMode = True, params_campaignId = JStr ''3'',
         Campaign_details = []\<rparr>) = [didUpdate_change]
   \<and> field_change (Select2Change [didUpdate_change])
   \<and> handle
       \<lparr>App_formChanged = False,
         AdGroup_details = [(''type'', JStr ''suggested''), (''id'', JNum (safe_of_int 5))],
         AdGroup_isSaving = False, editMode = True, params_campaignId = JStr ''3'',
         Campaign_details = []\<rparr>
       (Select2Change [didUpdate_change]) = []
   \<and> snd (run_events
       \<lparr>App_formChanged = False,
         AdGroup_details = [(''type'', JStr ''suggested''), (''id'', JNum (safe_of_int 5))],
         AdGroup_isSaving = False, editMode = True, params_campaignId = JStr ''3'',
         Campaign_details = []\<rparr>
       [Select2Change [didUpdate_change], Change]) = [dispatch formChanged]
   \<and> handle
       \<lparr>App_formChanged = False,
         AdGroup_details = [(''type'', JStr ''suggested''), (''id'', JNum (safe_of_int 5))],
         AdGroup_isSaving = False, editMode = True, params_campaignId = JStr ''3'',
         Campaign_details = []\<rparr>
       (Select2Change [didMount_change]) = [dispatch formChanged]"
  by (simp add: rebound_def form_key_def componentDidMount_def componentDidUpdate_def
      render_data_def obj_get_def number_to_string_examples handleChange_def commit_def rerender_def
      Let_def)

text \<open>
  C8. \<open>handleSwitch\<close> dispatches \<open>formChanged\<close>, unless the flag is set already, and then
  sets the \<open>type\<close> of the details to ``directory'' when the toggle is checked and to
  ``suggested'' otherwise. In the store this sets the dirty flag and the \<open>type\<close> field and
  nothing else: every other field of the details, among them \<open>categories\<close>,
  \<open>frequency_cap_daily\<close> and \<open>frequency_cap_total\<close>, reads as before. After a switch to
  ``directory'' the category field is rendered hidden and disabled, and the budget
  section is rendered hidden with both inputs disabled in create mode and not rendered
  at all in edit mode.
\<close>

theorem handleSwitch_frame:
  "\<exists>v p'.
       v = JStr (if checked = JBool True then ''directory'' else ''suggested'')
     \<and> p' = commit p (handleSwitch p checked)
     \<and> handleSwitch p checked =
         (if App_formChanged p then [] else [dispatch formChanged]) @
         [dispatch (adGroupSetDetailsVar ''type'' v)]
     \<and> p' = p\<lparr>App_formChanged := True,
               AdGroup_details := AList.update ''type'' v (AdGroup_details p)\<rparr>
     \<and> obj_get (AdGroup_details p') ''type'' = v
     \<and> (\<forall>k. k \<noteq> ''type'' \<longrightarrow> obj_get (AdGroup_details p') k = obj_get (AdGroup_details p) k)
     \<and> (checked = JBool True \<longrightarrow>
          categories (render p') =
            \<lparr>categories_className = ''hide'', categories_disabled = True\<rparr>
        \<and> budget (render p') =
            (if editMode p then None
             else Some \<lparr>budget_className = ''hide'', frequency_cap_daily_disabled = True,
                        frequency_cap_total_disabled = True\<rparr>))"
proof -
  let ?v = "JStr (if checked = JBool True then ''directory'' else ''suggested'')"
  let ?p' = "commit p (handleSwitch p checked)"
  have eff: "handleSwitch p checked =
         (if App_formChanged p then [] else [dispatch formChanged]) @
         [dispatch (adGroupSetDetailsVar ''type'' ?v)]"
    by (simp add: handleSwitch_def handleChange_def)
  have st: "?p' = p\<lparr>App_formChanged := True,
               AdGroup_details := AList.update ''type'' ?v (AdGroup_details p)\<rparr>"
    by (cases p) (simp add: commit_def dispatched_handleSwitch)
  have ty: "obj_get (AdGroup_details ?p') ''type'' = ?v"
    by (simp only: st) (simp add: obj_get_update)
  have others: "\<forall>k. k \<noteq> ''type'' \<longrightarrow>
      obj_get (AdGroup_details ?p') k = obj_get (AdGroup_details p) k"
    by (simp only: st) (simp add: obj_get_update)
  have em: "editMode ?p' = editMode p" by (simp only: st) simp
  have view: "checked = JBool True \<longrightarrow>
          categories (render ?p') =
            \<lparr>categories_className = ''hide'', categories_disabled = True\<rparr>
        \<and> budget (render ?p') =
            (if editMode p then None
             else Some \<lparr>budget_className = ''hide'', frequency_cap_daily_disabled = True,
                        frequency_cap_total_disabled = True\<rparr>)"
  proof
    assume "checked = JBool True"
    with ty have "obj_get (render_data ?p') ''type'' = JStr ''directory''"
      by (simp add: obj_get_render_data)
    with em show "categories (render ?p') =
            \<lparr>categories_className = ''hide'', categories_disabled = True\<rparr>
        \<and> budget (render ?p') =
            (if editMode p then None
             else Some \<lparr>budget_className = ''hide'', frequency_cap_daily_disabled = True,
                        frequency_cap_total_disabled = True\<rparr>)"
      by (simp add: render_def Let_def)
  qed
  from eff st ty others view show ?thesis by blast
qed

theorem handleSwitch_frame_witness:
  "commit \<lparr>App_formChanged = False,
       AdGroup_details = [(''type'', JStr ''suggested''), (''categories'', JArr [JStr ''Sports'']),
         (''frequency_cap_daily'', JNum (safe_of_int 3)), (''frequency_cap_total'', JNum (safe_of_int 10))],
       AdGroup_isSaving = False, editMode = False, params_campaignId = JStr ''3'', Campaign_details = []\<rparr>
     (handleSwitch \<lparr>App_formChanged = False,
       AdGroup_details = [(''type'', JStr ''suggested''), (''categories'', JArr [JStr ''Sports'']),
         (''frequency_cap_daily'', JNum (safe_of_int 3)), (''frequency_cap_total'', JNum (safe_of_int 10))],
       AdGroup_isSaving = False, editMode = False, params_campaignId = JStr ''3'', Campaign_details = []\<rparr> (JBool True)) =
   \<lparr>App_formChanged = True,
       AdGroup_details = [(''type'', JStr ''directory''), (''categories'', JArr [JStr ''Sports'']),
         (''frequency_cap_daily'', JNum (safe_of_int 3)), (''frequency_cap_total'', JNum (safe_of_int 10))],
       AdGroup_isSaving = False, editMode = False, params_campaignId = JStr ''3'', Campaign_details = []\<rparr>"
  using handleSwitch_frame [of "JBool True" "\<lparr>App_formChanged = False,
       AdGroup_details = [(''type'', JStr ''suggested''), (''categories'', JArr [JStr ''Sports'']),
         (''frequency_cap_daily'', JNum (safe_of_int 3)), (''frequency_cap_total'', JNum (safe_of_int 10))],
       AdGroup_isSaving = False, editMode = False, params_campaignId = JStr ''3'', Campaign_details = []\<rparr>"]
  by (simp add: commit_def)

text \<open>
  A response without a result dispatches neither \<open>formSaved\<close> nor \<open>formChanged\<close>,
  leaves the store as it is, the dirty flag included, and does not navigate, so the form
  stays in place. \<open>componentWillMount\<close> dispatches neither action.
\<close>

lemma rejected_response_leaves_store:
  assumes "get_prop response ''result'' = Inr JUndefined"
  shows "formSaved \<notin> set (dispatched (fst (handleResponse p response)))"
    and "formChanged \<notin> set (dispatched (fst (handleResponse p response)))"
    and "commit p (fst (handleResponse p response)) = p"
    and "navigations (fst (handleResponse p response)) = []"
proof -
  from assms obtain m where m: "get_prop response ''message'' = Inr m"
    by (cases response) simp_all
  with assms have run: "fst (handleResponse p response) =
      [dispatch (displayMessage ''error'' m), dispatch shownMessage, scrollTo 0 0]"
    by (simp add: handleResponse_def)
  show "formSaved \<notin> set (dispatched (fst (handleResponse p response)))"
    and "formChanged \<notin> set (dispatched (fst (handleResponse p response)))"
    and "commit p (fst (handleResponse p response)) = p"
    and "navigations (fst (handleResponse p response)) = []"
    by (simp_all add: run commit_def)
qed

lemma componentWillMount_flag:
  "formSaved \<notin> set (dispatched (componentWillMount p))"
  "formChanged \<notin> set (dispatched (componentWillMount p))"
  by (simp_all add: componentWillMount_def)

text \<open>
  C9. The claim fails in its first clause, the flag being set on a field change, on the
  same path as C6: after the id of the details has changed, a change of the categories
  runs the callback that \<open>componentDidUpdate\<close> binds, which throws a ReferenceError, and
  the dirty flag is as clear after the field change as before. The callback that
  \<open>componentDidMount\<close> binds sets it on the same props.
\<close>

theorem select2_change_after_update_leaves_flag_clear:
  "field_change (Select2Change [didUpdate_change])
   \<and> trigger
       \<lparr>App_formChanged = False,
         AdGroup_details = [(''type'', JStr ''suggested''), (''id'', JNum (safe_of_int 5))],
         AdGroup_isSaving = False, editMode = True, params_campaignId = JStr ''3'',
         Campaign_details = []\<rparr>
       [didUpdate_change] = ([], Some ReferenceError)
   \<and> \<not> App_formChanged (fst (run_events
       \<lparr>App_formChanged = False,
         AdGroup_details = [(''type'', JStr ''suggested''), (''id'', JNum (safe_of_int 5))],
         AdGroup_isSaving = False, editMode = True, params_campaignId = JStr ''3'',
         Campaign_details = []\<rparr>
       [Select2Change [didUpdate_change]]))
   \<and> App_formChanged (fst (run_events
       \<lparr>App_formChanged = False,
         AdGroup_details = [(''type'', JStr ''suggested''), (''id'', JNum (safe_of_int 5))],
         AdGroup_isSaving = False, editMode = True, params_campaignId = JStr ''3'',
         Campaign_details = []\<rparr>
       [Select2Change [didMount_change]]))"
  by (simp add: handleChange_def commit_def rerender_def Let_def)

lemma run_events_type_defined:
  "obj_get (AdGroup_details p) ''type'' \<noteq> JUndefined \<Longrightarrow>
   obj_get (AdGroup_details (fst (run_events p es))) ''type'' \<noteq> JUndefined"
proof (induction es arbitrary: p)
  case Nil
  then show ?case by simp
next
  case (Cons e es)
  have "obj_get (AdGroup_details (rerender (commit p (handle p e)))) ''type'' \<noteq> JUndefined"
    using Cons.prems by (simp add: commit_handle_type split: event.splits)
  then show ?case
    by (simp add: run_events_Cons Cons.IH del: run_events.simps)
qed

lemma run_events_type_enum:
  "obj_get (AdGroup_details p) ''type'' \<in> {JStr ''suggested'', JStr ''directory''} \<Longrightarrow>
   obj_get (AdGroup_details (fst (run_events p es))) ''type''
     \<in> {JStr ''suggested'', JStr ''directory''}"
proof (induction es arbitrary: p)
  case Nil
  then show ?case by simp
next
  case (Cons e es)
  have "obj_get (AdGroup_details (rerender (commit p (handle p e)))) ''type''
      \<in> {JStr ''suggested'', JStr ''directory''}"
    using Cons.prems by (simp add: commit_handle_type split: event.splits)
  then have "obj_get (AdGroup_details
        (fst (run_events (rerender (commit p (handle p e))) es))) ''type''
      \<in> {JStr ''suggested'', JStr ''directory''}"
    by (rule Cons.IH)
  then show ?case by (simp only: run_events_Cons)
qed

lemma mount_type:
  "obj_get (AdGroup_details (mount p)) ''type'' =
     (if obj_get (AdGroup_details p) ''type'' = JUndefined then JStr ''suggested''
      else obj_get (AdGroup_details p) ''type'')"
  by (simp add: mount_def componentWillMount_def commit_def obj_get_update)

text \<open>
  C10. When the \<open>type\<close> of the details is undefined at mount, \<open>componentWillMount\<close>
  dispatches \<open>adGroupSetDetailsVar('type', 'suggested')\<close> and the mounted details have the
  type ``suggested''. After mounting, whatever events follow, the \<open>type\<close> is never
  undefined; and when it was undefined or one of the two types of the data model at
  mount, it is ``suggested'' or ``directory'' ever after.
\<close>

theorem type_defined_after_mount:
  "(obj_get (AdGroup_details p) ''type'' = JUndefined \<longrightarrow>
        componentWillMount p = [dispatch (adGroupSetDetailsVar ''type'' (JStr ''suggested''))]
      \<and> obj_get (AdGroup_details (mount p)) ''type'' = JStr ''suggested'')
   \<and> obj_get (AdGroup_details (fst (run_events (mount p) es))) ''type'' \<noteq> JUndefined
   \<and> (obj_get (AdGroup_details p) ''type''
          \<in> {JUndefined, JStr ''suggested'', JStr ''directory''} \<longrightarrow>
        obj_get (AdGroup_details (fst (run_events (mount p) es))) ''type''
          \<in> {JStr ''suggested'', JStr ''directory''})"
proof (intro conjI impI)
  assume "obj_get (AdGroup_details p) ''type'' = JUndefined"
  then show "componentWillMount p = [dispatch (adGroupSetDetailsVar ''type'' (JStr ''suggested''))]"
    and "obj_get (AdGroup_details (mount p)) ''type'' = JStr ''suggested''"
    by (simp_all add: componentWillMount_def mount_type)
next
  have "obj_get (AdGroup_details (mount p)) ''type'' \<noteq> JUndefined"
    by (simp add: mount_type)
  then show "obj_get (AdGroup_details (fst (run_events (mount p) es))) ''type'' \<noteq> JUndefined"
    by (rule run_events_type_defined)
next
  assume "obj_get (AdGroup_details p) ''type''
          \<in> {JUndefined, JStr ''suggested'', JStr ''directory''}"
  then have "obj_get (AdGroup_details (mount p)) ''type''
      \<in> {JStr ''suggested'', JStr ''directory''}"
    by (auto simp: mount_type)
  then show "obj_get (AdGroup_details (fst (run_events (mount p) es))) ''type''
          \<in> {JStr ''suggested'', JStr ''directory''}"
    by (rule run_events_type_enum)
qed

theorem type_defined_after_mount_witness:
  "obj_get (AdGroup_details \<lparr>App_formChanged = False, AdGroup_details = [],
       AdGroup_isSaving = False, editMode = False, params_campaignId = JStr ''3'', Campaign_details = []\<rparr>) ''type'' = JUndefined
   \<and> AdGroup_details (mount \<lparr>App_formChanged = False, AdGroup_details = [],
       AdGroup_isSaving = False, editMode = False, params_campaignId = JStr ''3'', Campaign_details = []\<rparr>) =
       [(''type'', JStr ''suggested''), (''campaign_id'', JStr ''3'')]
   \<and> obj_get (AdGroup_details (fst (run_events
        (mount \<lparr>App_formChanged = False, AdGroup_details = [],
           AdGroup_isSaving = False, editMode = False, params_campaignId = JStr ''3'', Campaign_details = []\<rparr>)
        [Change, Switch (JBool True), Switch (JBool False)]))) ''type''
       \<in> {JStr ''suggested'', JStr ''directory''}"
proof -
  let ?p = "\<lparr>App_formChanged = False, AdGroup_details = [],
       AdGroup_isSaving = False, editMode = False, params_campaignId = JStr ''3'', Campaign_details = []\<rparr>"
  have u: "obj_get (AdGroup_details ?p) ''type'' = JUndefined" by (simp add: obj_get_def)
  have m: "AdGroup_details (mount ?p) = [(''type'', JStr ''suggested''), (''campaign_id'', JStr ''3'')]"
    by (simp add: mount_def componentWillMount_def commit_def rerender_def render_data_def
        obj_get_def)
  from u m type_defined_after_mount [of ?p "[Change, Switch (JBool True), Switch (JBool False)]"]
  show ?thesis by simp
qed

end
